theory Spec2Isabelle
  imports Main "HOL-Library.Word" "HOL-Library.List_Lexorder"
begin

section \<open>Data model\<close>

text \<open>
  The attestation application id of \<^verbatim>\<open>keystore/keystore_attestation_id.cpp\<close>.
  Bytes are \<^verbatim>\<open>uint8_t\<close>; a \<^verbatim>\<open>std::vector<uint8_t>\<close> and the contents of a
  \<^verbatim>\<open>std::string\<close> are byte lists.
\<close>

type_synonym byte = "8 word"
type_synonym bytes = "8 word list"

text \<open>
  The status carried by \<^verbatim>\<open>StatusOr\<close>: the three \<^verbatim>\<open>status_t\<close> codes the file returns
  and the keystore2 response code of a failed lookup. Their numeric values are declared
  in headers outside this file; they are different codes, and nothing else about them is
  used.
\<close>

datatype status_t = BAD_VALUE | NO_MEMORY | UNKNOWN_ERROR
  | GET_ATTESTATION_APPLICATION_ID_FAILED

text \<open>
  Modelled from the spec: the parcelables the provider returns, whose declarations are
  generated from interface files that are not among the sources; the fields are those
  the code reads. \<^verbatim>\<open>packageName\<close> is an optional \<^verbatim>\<open>String16\<close>; the model holds the bytes
  of its \<^verbatim>\<open>String8\<close> conversion (the UTF-8 form the code works on), \<open>None\<close> when the field
  is unset. \<^verbatim>\<open>versionCode\<close> is a 64-bit integer, read as unsigned by the
  \<^verbatim>\<open>static_cast<uint64_t>\<close>. A signature is the byte vector \<^verbatim>\<open>data\<close>.
\<close>

record Signature =
  data :: bytes

record KeyAttestationPackageInfo =
  packageName :: "bytes option"
  versionCode :: "64 word"
  signatures :: "Signature list"

record KeyAttestationApplicationId =
  packageInfos :: "KeyAttestationPackageInfo list"

text \<open>
  The ASN.1 structures: an octet string is its contents, the \<^verbatim>\<open>ASN1_INTEGER\<close> made from a
  \<^verbatim>\<open>uint64_t\<close> is a natural number, a \<^verbatim>\<open>STACK_OF\<close> is a list in push order.
\<close>

record KM_ATTESTATION_PACKAGE_INFO =
  package_name :: bytes
  version :: nat

record KM_ATTESTATION_APPLICATION_ID =
  package_infos :: "KM_ATTESTATION_PACKAGE_INFO list"
  signature_digests :: "bytes list"

text \<open>
  Modelled from the spec: the cap \<^verbatim>\<open>KEY_ATTESTATION_APPLICATION_ID_MAX_SIZE\<close>, declared in
  the header of this file, is 1024. The three overheads are the constants of lines 95, 107
  and 118; \<^verbatim>\<open>SHA256_DIGEST_LENGTH\<close> is the crypto library's 32.
\<close>

definition KEY_ATTESTATION_APPLICATION_ID_MAX_SIZE :: nat where
  "KEY_ATTESTATION_APPLICATION_ID_MAX_SIZE = 1024"

definition AAID_PKG_INFO_OVERHEAD :: nat where
  "AAID_PKG_INFO_OVERHEAD = 15"

definition AAID_SIGNATURE_SIZE :: nat where
  "AAID_SIGNATURE_SIZE = 34"

definition AAID_GENERAL_OVERHEAD :: nat where
  "AAID_GENERAL_OVERHEAD = 16"

definition SHA256_DIGEST_LENGTH :: nat where
  "SHA256_DIGEST_LENGTH = 32"

section \<open>DER encoding of the two templates\<close>

text \<open>
  Modelled from the spec: the DER encoder. \<^verbatim>\<open>i2d_KM_ATTESTATION_APPLICATION_ID\<close> is
  generated by \<^verbatim>\<open>IMPLEMENT_ASN1_FUNCTIONS\<close> from the two \<^verbatim>\<open>ASN1_SEQUENCE\<close> templates of
  the file (lines 96 to 99 and 119 to 122), which give the schema: a SEQUENCE of the SET
  OF package infos and the SET OF digests, a package info being the SEQUENCE of the name
  as OCTET STRING and the version as INTEGER. The encoding rules are the crypto
  library's and are not among the sources; they are DER (X.690), as the specification
  requires: a tag octet, the length in the shortest definite form, the contents; an
  INTEGER in the fewest octets, with a leading zero octet when the top bit would be set;
  the members of a SET OF in ascending order of their encodings (compared bytewise, a
  proper prefix first).
\<close>

fun be_bytes :: "nat \<Rightarrow> bytes" where
  "be_bytes n = (if n = 0 then [] else be_bytes (n div 256) @ [of_nat (n mod 256)])"

declare be_bytes.simps [simp del]

definition der_length :: "nat \<Rightarrow> bytes" where
  "der_length n =
     (if n < 128 then [of_nat n]
      else (let bs = be_bytes n in of_nat (128 + length bs) # bs))"

definition der_tlv :: "byte \<Rightarrow> bytes \<Rightarrow> bytes" where
  "der_tlv tag contents = tag # der_length (length contents) @ contents"

definition der_octet_string :: "bytes \<Rightarrow> bytes" where
  "der_octet_string s = der_tlv 0x04 s"

definition der_integer :: "nat \<Rightarrow> bytes" where
  "der_integer v =
     der_tlv 0x02
       (case be_bytes v of
          [] \<Rightarrow> [0]
        | b # bs \<Rightarrow> (if b \<ge> 0x80 then 0 # b # bs else b # bs))"

definition der_sequence :: "bytes list \<Rightarrow> bytes" where
  "der_sequence components = der_tlv 0x30 (concat components)"

definition der_set_of :: "bytes list \<Rightarrow> bytes" where
  "der_set_of members = der_tlv 0x31 (concat (sort members))"

definition i2d_KM_ATTESTATION_PACKAGE_INFO :: "KM_ATTESTATION_PACKAGE_INFO \<Rightarrow> bytes" where
  "i2d_KM_ATTESTATION_PACKAGE_INFO p =
     der_sequence [der_octet_string (package_name p), der_integer (version p)]"

definition i2d_KM_ATTESTATION_APPLICATION_ID :: "KM_ATTESTATION_APPLICATION_ID \<Rightarrow> bytes" where
  "i2d_KM_ATTESTATION_APPLICATION_ID a =
     der_sequence
       [der_set_of (map i2d_KM_ATTESTATION_PACKAGE_INFO (package_infos a)),
        der_set_of (map der_octet_string (signature_digests a))]"

section \<open>The encoder\<close>

text \<open>
  \<^verbatim>\<open>signature2SHA256\<close>: a buffer of \<^verbatim>\<open>SHA256_DIGEST_LENGTH\<close> zero bytes that the hash
  function fills. The hash function is the crypto library's and is a parameter here; the
  result has the buffer's length whatever the parameter returns.
\<close>

definition signature2SHA256 :: "(bytes \<Rightarrow> bytes) \<Rightarrow> Signature \<Rightarrow> bytes" where
  "signature2SHA256 SHA256 sig =
     (let digest_buffer = replicate SHA256_DIGEST_LENGTH (0::byte)
      in take SHA256_DIGEST_LENGTH (SHA256 (data sig) @ digest_buffer))"

text \<open>
  \<^verbatim>\<open>std::string(String8(name).c_str())\<close>: the constructor from a C string copies the bytes
  before the first NUL.
\<close>

definition c_str_string :: "bytes \<Rightarrow> bytes" where
  "c_str_string s = takeWhile (\<lambda>b. b \<noteq> 0) s"

text \<open>
  \<^verbatim>\<open>build_attestation_package_info\<close>. Allocation and the library's setters are taken to
  succeed (memory exhaustion is not modelled) and the out pointer is the address of a
  local, so of its error returns only the missing name remains. The same holds for the
  pushes onto the two stacks below.
\<close>

definition build_attestation_package_info ::
  "KeyAttestationPackageInfo \<Rightarrow> status_t + KM_ATTESTATION_PACKAGE_INFO" where
  "build_attestation_package_info pinfo =
     (case packageName pinfo of
        None \<Rightarrow> Inl BAD_VALUE
      | Some name \<Rightarrow>
          Inr \<lparr>package_name = c_str_string name, version = unat (versionCode pinfo)\<rparr>)"

text \<open>
  The loop over the packages (lines 212 to 234), with the running estimate and the stack
  of package infos as loop state. \<^verbatim>\<open>break\<close> leaves the loop with the estimate already
  increased by the package that did not fit. The estimate is a \<^verbatim>\<open>size_t\<close>; the sum of
  the lengths of strings held in memory cannot wrap it, so it is a natural number here.
\<close>

fun package_loop ::
  "KeyAttestationPackageInfo list \<Rightarrow> nat \<Rightarrow> KM_ATTESTATION_PACKAGE_INFO list
     \<Rightarrow> status_t + (nat \<times> KM_ATTESTATION_PACKAGE_INFO list)" where
  "package_loop [] estimated_encoded_size stack = Inr (estimated_encoded_size, stack)"
| "package_loop (pinfo # rest) estimated_encoded_size stack =
     (case packageName pinfo of
        None \<Rightarrow> Inl BAD_VALUE
      | Some name \<Rightarrow>
          (let pkg_name = c_str_string name in
           case build_attestation_package_info pinfo of
             Inl rc \<Rightarrow> Inl rc
           | Inr attestation_package_info \<Rightarrow>
               (let est = estimated_encoded_size + (AAID_PKG_INFO_OVERHEAD + length pkg_name)
                in if est > KEY_ATTESTATION_APPLICATION_ID_MAX_SIZE then Inr (est, stack)
                   else package_loop rest est (stack @ [attestation_package_info]))))"

text \<open>The loop over the digests (lines 248 to 262).\<close>

fun digest_loop :: "bytes list \<Rightarrow> nat \<Rightarrow> bytes list \<Rightarrow> nat \<times> bytes list" where
  "digest_loop [] estimated_encoded_size stack = (estimated_encoded_size, stack)"
| "digest_loop (si # rest) estimated_encoded_size stack =
     (let est = estimated_encoded_size + AAID_SIGNATURE_SIZE
      in if est > KEY_ATTESTATION_APPLICATION_ID_MAX_SIZE then (est, stack)
         else digest_loop rest est (stack @ [si]))"

text \<open>
  Lines 203 to 262 of \<^verbatim>\<open>build_attestation_application_id\<close>: the structure that is handed
  to the DER encoder.
\<close>

definition fill_attestation_id ::
  "(bytes \<Rightarrow> bytes) \<Rightarrow> KeyAttestationApplicationId \<Rightarrow> status_t + KM_ATTESTATION_APPLICATION_ID"
  where
  "fill_attestation_id SHA256 key_attestation_id =
     (case packageInfos key_attestation_id of
        [] \<Rightarrow> Inl BAD_VALUE
      | pinfo # _ \<Rightarrow>
          (case package_loop (packageInfos key_attestation_id) AAID_GENERAL_OVERHEAD [] of
             Inl rc \<Rightarrow> Inl rc
           | Inr (est, pinfo_stack) \<Rightarrow>
               (let digests = map (signature2SHA256 SHA256) (signatures pinfo)
                in Inr \<lparr>package_infos = pinfo_stack,
                        signature_digests = snd (digest_loop digests est [])\<rparr>)))"

text \<open>
  \<^verbatim>\<open>build_attestation_application_id\<close>: the structure, then lines 264 to 272. The
  encoder's \<^verbatim>\<open>int\<close> result is the number of bytes of the encoding, which is never
  negative, so the two \<^verbatim>\<open>UNKNOWN_ERROR\<close> returns are not taken.
\<close>

definition build_attestation_application_id ::
  "(bytes \<Rightarrow> bytes) \<Rightarrow> KeyAttestationApplicationId \<Rightarrow> status_t + bytes" where
  "build_attestation_application_id SHA256 key_attestation_id =
     (case fill_attestation_id SHA256 key_attestation_id of
        Inl rc \<Rightarrow> Inl rc
      | Inr attestation_id \<Rightarrow>
          (let result = i2d_KM_ATTESTATION_APPLICATION_ID attestation_id;
               len = int (length result)
           in if len < 0 then Inl UNKNOWN_ERROR else Inr result))"

section \<open>The provider client and the gatherer\<close>

text \<open>
  The result of a binder call: no exception, a service specific error with its code, a
  failed transaction, or any other exception code. Messages are only logged.
\<close>

datatype Status = EX_NONE | EX_SERVICE_SPECIFIC int | EX_TRANSACTION_FAILED | EX_OTHER int

definition isOk :: "Status \<Rightarrow> bool" where
  "isOk status = (status = EX_NONE)"

type_synonym uid_t = "32 word"

text \<open>
  Modelled from the spec: the uids of root and system, declared in a platform header, are
  0 and 1000. The other constants are those of lines 52 to 54.
\<close>

definition AID_ROOT :: uid_t where
  "AID_ROOT = 0"

definition AID_SYSTEM :: uid_t where
  "AID_SYSTEM = 1000"

definition kAttestationSystemPackageName :: string where
  "kAttestationSystemPackageName = ''AndroidSystem''"

definition kMaxAttempts :: nat where
  "kMaxAttempts = 3"

definition kRetryIntervalUsecs :: nat where
  "kRetryIntervalUsecs = 500000"

text \<open>\<^verbatim>\<open>String16\<close> of an ASCII literal, as the bytes of its \<^verbatim>\<open>String8\<close> form.\<close>

definition String16 :: "string \<Rightarrow> bytes" where
  "String16 s = map of_char s"

text \<open>
  What one call of \<^verbatim>\<open>gather_attestation_application_id\<close> does to the process and its
  surroundings: the cached proxy \<^verbatim>\<open>gService\<close>, and the calls that leave the function, in
  order. The mutex only serialises the accesses to \<^verbatim>\<open>gService\<close>; one thread is modelled.
  \<^verbatim>\<open>waitForService\<close> is taken to return.
\<close>

datatype BpKeyAttestationApplicationIdProvider = Proxy

datatype event = WaitForService | Rpc uid_t | ResetService | Usleep nat

record world =
  gService :: "BpKeyAttestationApplicationIdProvider option"
  trace :: "event list"

text \<open>
  The remote provider is a parameter: its answer to the \<open>n\<close>-th call it receives (counted
  from 0 over the whole trace) for a uid, as the status and the value the call leaves in
  the out parameter.
\<close>

type_synonym provider = "nat \<Rightarrow> uid_t \<Rightarrow> Status \<times> KeyAttestationApplicationId"

definition is_rpc :: "event \<Rightarrow> bool" where
  "is_rpc e = (case e of Rpc _ \<Rightarrow> True | _ \<Rightarrow> False)"

definition rpc_count :: "world \<Rightarrow> nat" where
  "rpc_count w = length (filter is_rpc (trace w))"

definition get_service :: "world \<Rightarrow> BpKeyAttestationApplicationIdProvider \<times> world" where
  "get_service w =
     (case gService w of
        None \<Rightarrow> (Proxy, w\<lparr>gService := Some Proxy, trace := trace w @ [WaitForService]\<rparr>)
      | Some pm \<Rightarrow> (pm, w))"

definition reset_service :: "world \<Rightarrow> world" where
  "reset_service w = w\<lparr>gService := None, trace := trace w @ [ResetService]\<rparr>"

definition usleep :: "nat \<Rightarrow> world \<Rightarrow> world" where
  "usleep usecs w = w\<lparr>trace := trace w @ [Usleep usecs]\<rparr>"

definition getKeyAttestationApplicationId ::
  "provider \<Rightarrow> BpKeyAttestationApplicationIdProvider \<Rightarrow> uid_t \<Rightarrow> world
     \<Rightarrow> Status \<times> KeyAttestationApplicationId \<times> world" where
  "getKeyAttestationApplicationId remote pm uid w =
     (let (status, key_attestation_id) = remote (rpc_count w) uid
      in (status, key_attestation_id, w\<lparr>trace := trace w @ [Rpc uid]\<rparr>))"

text \<open>The retry loop (lines 289 to 311), from attempt number \<open>attempt\<close> on.\<close>

function lookup_loop ::
  "provider \<Rightarrow> uid_t \<Rightarrow> nat \<Rightarrow> Status \<times> KeyAttestationApplicationId \<times> world
     \<Rightarrow> Status \<times> KeyAttestationApplicationId \<times> world" where
  "lookup_loop remote uid attempt (status, key_attestation_id, w) =
     (if attempt < kMaxAttempts then
        (let (pm, w1) = get_service w;
             (status1, key_attestation_id1, w2) = getKeyAttestationApplicationId remote pm uid w1
         in if isOk status1 then (status1, key_attestation_id1, w2)
            else
              (let w3 = (case status1 of
                           EX_SERVICE_SPECIFIC _ \<Rightarrow> w2
                         | EX_TRANSACTION_FAILED \<Rightarrow> reset_service w2
                         | _ \<Rightarrow> w2);
                   w4 = usleep kRetryIntervalUsecs w3
               in lookup_loop remote uid (attempt + 1) (status1, key_attestation_id1, w4)))
      else (status, key_attestation_id, w))"
  by pat_completeness auto
termination
  by (relation "measure (\<lambda>(remote, uid, attempt, s). kMaxAttempts - attempt)") auto

declare lookup_loop.simps [simp del]

definition gather_attestation_application_id ::
  "(bytes \<Rightarrow> bytes) \<Rightarrow> provider \<Rightarrow> uid_t \<Rightarrow> world \<Rightarrow> (status_t + bytes) \<times> world" where
  "gather_attestation_application_id SHA256 remote uid w =
     (if uid = AID_SYSTEM \<or> uid = AID_ROOT then
        (let pinfo = \<lparr>packageName = Some (String16 kAttestationSystemPackageName),
                      versionCode = 1, signatures = []\<rparr>;
             key_attestation_id = \<lparr>packageInfos = [pinfo]\<rparr>
         in (build_attestation_application_id SHA256 key_attestation_id, w))
      else
        (let (status, key_attestation_id, w1) =
               lookup_loop remote uid 0 (EX_NONE, \<lparr>packageInfos = []\<rparr>, w)
         in if \<not> isOk status then (Inl GET_ATTESTATION_APPLICATION_ID_FAILED, w1)
            else (build_attestation_application_id SHA256 key_attestation_id, w1)))"

section \<open>Observations and the estimate\<close>

text \<open>
  What is counted in a trace: the calls to the provider (\<open>rpc_count\<close> above), the resets
  of the cached proxy and the sleeps.
\<close>

definition reset_count :: "world \<Rightarrow> nat" where
  "reset_count w = length (filter (\<lambda>e. e = ResetService) (trace w))"

definition is_usleep :: "event \<Rightarrow> bool" where
  "is_usleep e = (case e of Usleep _ \<Rightarrow> True | _ \<Rightarrow> False)"

definition usleep_count :: "world \<Rightarrow> nat" where
  "usleep_count w = length (filter is_usleep (trace w))"

text \<open>
  One attempt of the retry loop, as the events it appends and the world it leaves: the
  wait for the service when no proxy is cached, the call, and after a failure the reset
  (for a failed transaction only) and the sleep. Lemmas \<open>lookup_loop_ok\<close> and
  \<open>lookup_loop_fail\<close> show that the loop body does exactly this.
\<close>

definition attempt_events :: "world \<Rightarrow> uid_t \<Rightarrow> Status \<Rightarrow> event list" where
  "attempt_events w uid status =
     (if gService w = None then [WaitForService] else []) @ [Rpc uid] @
     (if isOk status then []
      else (if status = EX_TRANSACTION_FAILED then [ResetService] else []) @
           [Usleep kRetryIntervalUsecs])"

definition after_attempt :: "world \<Rightarrow> uid_t \<Rightarrow> Status \<Rightarrow> world" where
  "after_attempt w uid status =
     \<lparr>gService = (if status = EX_TRANSACTION_FAILED then None else Some Proxy),
      trace = trace w @ attempt_events w uid status\<rparr>"

text \<open>
  The size estimate as the specification words it: \<open>GENERAL_OVERHEAD\<close> plus, for each
  package, \<open>PKG_OVERHEAD\<close> and the length of its name (the \<^verbatim>\<open>std::string\<close> of line 218).
\<close>

definition name_size :: "KeyAttestationPackageInfo \<Rightarrow> nat" where
  "name_size p = (case packageName p of None \<Rightarrow> 0 | Some name \<Rightarrow> length (c_str_string name))"

definition packages_estimate :: "KeyAttestationPackageInfo list \<Rightarrow> nat" where
  "packages_estimate ps = sum_list (map (\<lambda>p. AAID_PKG_INFO_OVERHEAD + name_size p) ps)"

definition prefix_estimate :: "KeyAttestationPackageInfo list \<Rightarrow> nat" where
  "prefix_estimate ps = AAID_GENERAL_OVERHEAD + packages_estimate ps"

section \<open>Concrete inputs\<close>

text \<open>
  A stand-in for the hash function, a world in which nothing has happened yet, and the
  inputs and providers of the scenarios: the fixed id of system callers, an id without
  packages, two packages sharing a uid, two packages with names of 500 bytes of which
  only the first fits the cap, one hundred packages with names of 200 bytes
  (and the package info built from one of them), and seven packages with different names
  of 129 bytes, version \<open>2\<^sup>6\<^sup>2\<close> and one signature each (and the package infos built from
  them).
\<close>

definition test_hash :: "bytes \<Rightarrow> bytes" where
  "test_hash d = replicate 32 (of_nat (length d))"

definition fresh_world :: world where
  "fresh_world = \<lparr>gService = None, trace = []\<rparr>"

definition system_id :: KeyAttestationApplicationId where
  "system_id =
     \<lparr>packageInfos = [\<lparr>packageName = Some (String16 ''AndroidSystem''), versionCode = 1,
                        signatures = []\<rparr>]\<rparr>"

definition empty_id :: KeyAttestationApplicationId where
  "empty_id = \<lparr>packageInfos = []\<rparr>"



definition pkg200 :: KeyAttestationPackageInfo where
  "pkg200 = \<lparr>packageName = Some (replicate 200 0x61), versionCode = 1,
              signatures = [\<lparr>data = [1, 2, 3]\<rparr>]\<rparr>"

definition built200 :: KM_ATTESTATION_PACKAGE_INFO where
  "built200 = \<lparr>package_name = replicate 200 0x61, version = 1\<rparr>"

definition oversize_name :: "byte \<Rightarrow> bytes" where
  "oversize_name b = replicate 128 0x61 @ [b]"

definition oversize_pinfo :: "byte \<Rightarrow> KeyAttestationPackageInfo" where
  "oversize_pinfo b =
     \<lparr>packageName = Some (oversize_name b), versionCode = 0x4000000000000000,
      signatures = [\<lparr>data = [1, 2, 3]\<rparr>]\<rparr>"

definition oversize_built :: "byte \<Rightarrow> KM_ATTESTATION_PACKAGE_INFO" where
  "oversize_built b = \<lparr>package_name = oversize_name b, version = 0x4000000000000000\<rparr>"

definition oversize_id :: KeyAttestationApplicationId where
  "oversize_id =
     \<lparr>packageInfos = map oversize_pinfo [0x62, 0x63, 0x64, 0x65, 0x66, 0x67, 0x68]\<rparr>"

text \<open>
  Providers: one that always answers with the service specific error 7, one whose first
  transaction fails and that answers afterwards, one that is first unavailable and then
  answers with an id without packages.
\<close>

definition always_service_specific :: provider where
  "always_service_specific n uid = (EX_SERVICE_SPECIFIC 7, empty_id)"

definition fail_then_ok :: provider where
  "fail_then_ok n uid = (if n = 0 then (EX_TRANSACTION_FAILED, empty_id) else (EX_NONE, system_id))"

definition unavailable_then_empty :: provider where
  "unavailable_then_empty n uid =
     (if n = 0 then (EX_SERVICE_SPECIFIC 7, empty_id) else (EX_NONE, empty_id))"

section \<open>Lengths of DER encodings\<close>

lemma length_der_tlv:
  "length (der_tlv tag contents) = 1 + length (der_length (length contents)) + length contents"
  by (simp add: der_tlv_def)

lemma der_tlv_not_Nil: "der_tlv tag contents \<noteq> []"
  by (simp add: der_tlv_def)

lemma sum_list_map_insort:
  "sum_list (map f (insort x xs)) = f x + sum_list (map f xs)"
  for f :: "'a::linorder \<Rightarrow> nat"
  by (induction xs) simp_all

lemma sum_list_map_sort:
  "sum_list (map f (sort xs)) = sum_list (map f xs)"
  for f :: "'a::linorder \<Rightarrow> nat"
  by (induction xs) (simp_all add: sum_list_map_insort)

lemma length_concat_sort:
  "length (concat (sort members)) = sum_list (map length members)"
  by (simp add: length_concat sum_list_map_sort)

lemma length_der_set_of:
  "length (der_set_of members) =
     1 + length (der_length (sum_list (map length members))) + sum_list (map length members)"
  by (simp add: der_set_of_def length_der_tlv length_concat_sort)

lemma length_be_bytes_1:
  assumes "0 < n" and "n < 256"
  shows "length (be_bytes n) = 1"
proof -
  from assms have "n div 256 = 0" by simp
  with assms show ?thesis
    by (simp add: be_bytes.simps [of n] be_bytes.simps [of 0])
qed

lemma length_be_bytes_2:
  assumes "256 \<le> n" and "n < 65536"
  shows "length (be_bytes n) = 2"
proof -
  from assms have "0 < n div 256" "n div 256 < 256"
    by (simp_all add: div_greater_zero_iff less_mult_imp_div_less)
  then have "length (be_bytes (n div 256)) = 1" by (rule length_be_bytes_1)
  with assms show ?thesis by (simp add: be_bytes.simps [of n])
qed

lemma length_der_length_1: "n < 128 \<Longrightarrow> length (der_length n) = 1"
  by (simp add: der_length_def)

lemma length_der_length_2: "128 \<le> n \<Longrightarrow> n < 256 \<Longrightarrow> length (der_length n) = 2"
  by (simp add: der_length_def length_be_bytes_1)

lemma length_der_length_3: "256 \<le> n \<Longrightarrow> n < 65536 \<Longrightarrow> length (der_length n) = 3"
  by (simp add: der_length_def length_be_bytes_2)

lemma i2d_not_Nil: "i2d_KM_ATTESTATION_APPLICATION_ID a \<noteq> []"
  by (simp add: i2d_KM_ATTESTATION_APPLICATION_ID_def der_sequence_def der_tlv_def)

section \<open>The two loops of the encoder\<close>

lemma packages_estimate_Nil [simp]: "packages_estimate [] = 0"
  by (simp add: packages_estimate_def)

lemma packages_estimate_Cons [simp]:
  "packages_estimate (p # ps) = AAID_PKG_INFO_OVERHEAD + name_size p + packages_estimate ps"
  by (simp add: packages_estimate_def)

lemma prefix_estimate_numbers:
  "prefix_estimate ps = 16 + (\<Sum>p\<leftarrow>ps. 15 + name_size p)"
  by (simp add: prefix_estimate_def packages_estimate_def AAID_GENERAL_OVERHEAD_def
      AAID_PKG_INFO_OVERHEAD_def)

lemma packages_estimate_append:
  "packages_estimate (ps @ qs) = packages_estimate ps + packages_estimate qs"
  by (simp add: packages_estimate_def)

lemma packages_estimate_take_mono:
  assumes "j \<le> k"
  shows "packages_estimate (take j ps) \<le> packages_estimate (take k ps)"
proof -
  have "take k ps = take j ps @ take (k - j) (drop j ps)"
    using assms by (metis le_add_diff_inverse take_add)
  then show ?thesis by (simp add: packages_estimate_append)
qed

text \<open>
  The package loop pushes the package infos of a prefix of its input; the prefix fits the
  cap, and when it is a proper prefix the estimate the loop ends with, which includes the
  package that did not fit, is above the cap.
\<close>

lemma package_loop_Inr:
  assumes "package_loop ps est stack = Inr (est', stack')"
  shows "\<exists>k\<le>length ps.
           map Inr stack' = map Inr stack @ map build_attestation_package_info (take k ps) \<and>
           (0 < k \<longrightarrow> est + packages_estimate (take k ps) \<le> KEY_ATTESTATION_APPLICATION_ID_MAX_SIZE) \<and>
           est' = est + packages_estimate (take (Suc k) ps) \<and>
           (k < length ps \<longrightarrow> KEY_ATTESTATION_APPLICATION_ID_MAX_SIZE < est')"
  using assms
proof (induction ps arbitrary: est stack)
  case Nil
  then show ?case by simp
next
  case (Cons p ps)
  from Cons.prems obtain name where name: "packageName p = Some name"
    by (cases "packageName p") simp_all
  define x where "x = \<lparr>package_name = c_str_string name, version = unat (versionCode p)\<rparr>"
  have built: "build_attestation_package_info p = Inr x"
    by (simp add: build_attestation_package_info_def name x_def)
  define est1 where "est1 = est + (AAID_PKG_INFO_OVERHEAD + name_size p)"
  have ns: "name_size p = length (c_str_string name)"
    by (simp add: name_size_def name)
  show ?case
  proof (cases "est1 > KEY_ATTESTATION_APPLICATION_ID_MAX_SIZE")
    case True
    with Cons.prems have "est' = est1" "stack' = stack"
      by (simp_all add: name built est1_def ns Let_def)
    with True show ?thesis
      by (intro exI [of _ 0]) (simp add: est1_def)
  next
    case False
    with Cons.prems have "package_loop ps est1 (stack @ [x]) = Inr (est', stack')"
      by (simp add: name built est1_def ns Let_def)
    from Cons.IH [OF this] obtain k where k: "k \<le> length ps"
      "map Inr stack' = map Inr (stack @ [x]) @ map build_attestation_package_info (take k ps)"
      "0 < k \<longrightarrow> est1 + packages_estimate (take k ps) \<le> KEY_ATTESTATION_APPLICATION_ID_MAX_SIZE"
      "est' = est1 + packages_estimate (take (Suc k) ps)"
      "k < length ps \<longrightarrow> KEY_ATTESTATION_APPLICATION_ID_MAX_SIZE < est'"
      by blast
    have "est + packages_estimate (take (Suc k) (p # ps)) \<le> KEY_ATTESTATION_APPLICATION_ID_MAX_SIZE"
      using k(3) False by (cases "k = 0") (simp_all add: est1_def)
    with k show ?thesis
      by (intro exI [of _ "Suc k"]) (simp add: est1_def built)
  qed
qed

lemma package_loop_total:
  "\<forall>p\<in>set ps. packageName p \<noteq> None \<Longrightarrow> \<exists>r. package_loop ps est stack = Inr r"
  by (induction ps arbitrary: est stack)
     (auto simp: build_attestation_package_info_def Let_def)



lemma digest_loop_over_budget:
  "KEY_ATTESTATION_APPLICATION_ID_MAX_SIZE < est \<Longrightarrow> snd (digest_loop ds est stack) = stack"
  by (cases ds) (simp_all add: Let_def)


lemma build_eq_i2d:
  "build_attestation_application_id SHA256 kid =
     (case fill_attestation_id SHA256 kid of
        Inl rc \<Rightarrow> Inl rc
      | Inr a \<Rightarrow> Inr (i2d_KM_ATTESTATION_APPLICATION_ID a))"
  by (simp add: build_attestation_application_id_def Let_def split: sum.splits)

lemma fill_Inr_cases:
  assumes "fill_attestation_id SHA256 kid = Inr a"
  obtains pinfo rest est stack where
    "packageInfos kid = pinfo # rest"
    "package_loop (pinfo # rest) AAID_GENERAL_OVERHEAD [] = Inr (est, stack)"
    "package_infos a = stack"
    "signature_digests a =
       snd (digest_loop (map (signature2SHA256 SHA256) (signatures pinfo)) est [])"
  using assms
  by (auto simp: fill_attestation_id_def Let_def split: list.splits sum.splits)

lemma fill_total:
  assumes "packageInfos kid \<noteq> []" and "\<forall>p\<in>set (packageInfos kid). packageName p \<noteq> None"
  shows "\<exists>a. fill_attestation_id SHA256 kid = Inr a"
proof -
  from assms(1) obtain p ps where ps: "packageInfos kid = p # ps"
    by (cases "packageInfos kid") simp_all
  from package_loop_total [OF assms(2)] obtain est stack
    where "package_loop (packageInfos kid) AAID_GENERAL_OVERHEAD [] = Inr (est, stack)"
    by fastforce
  with ps show ?thesis by (simp add: fill_attestation_id_def Let_def)
qed

lemma build_total:
  assumes "packageInfos kid \<noteq> []" and "\<forall>p\<in>set (packageInfos kid). packageName p \<noteq> None"
  shows "\<exists>result. build_attestation_application_id SHA256 kid = Inr result"
  using fill_total [OF assms, of SHA256] by (auto simp: build_eq_i2d)

section \<open>The retry loop\<close>

lemma Some_proxy: "Some (pm::BpKeyAttestationApplicationIdProvider) = Some Proxy"
  by (cases pm) simp

lemma lookup_loop_ok:
  assumes "attempt < kMaxAttempts" and "remote (rpc_count w) uid = (EX_NONE, k)"
  shows "lookup_loop remote uid attempt (s0, k0, w) = (EX_NONE, k, after_attempt w uid EX_NONE)"
proof (cases "gService w")
  case None
  then show ?thesis using assms
    by (cases w) (simp add: lookup_loop.simps [of _ _ attempt] get_service_def rpc_count_def is_rpc_def
        getKeyAttestationApplicationId_def isOk_def after_attempt_def attempt_events_def)
next
  case (Some pm)
  then have "gService w = Some Proxy" by (cases pm) simp
  then show ?thesis using assms
    by (cases w) (simp add: lookup_loop.simps [of _ _ attempt] get_service_def rpc_count_def is_rpc_def
        getKeyAttestationApplicationId_def isOk_def after_attempt_def attempt_events_def)
qed

lemma lookup_loop_fail:
  assumes "attempt < kMaxAttempts" and "remote (rpc_count w) uid = (st, k)" and "st \<noteq> EX_NONE"
  shows "lookup_loop remote uid attempt (s0, k0, w) =
         lookup_loop remote uid (attempt + 1) (st, k, after_attempt w uid st)"
proof (cases "gService w")
  case None
  then show ?thesis using assms
    by (cases w; cases st) (simp_all add: lookup_loop.simps [of _ _ attempt] get_service_def rpc_count_def is_rpc_def
        getKeyAttestationApplicationId_def isOk_def after_attempt_def attempt_events_def
        reset_service_def usleep_def)
next
  case (Some pm)
  then have "gService w = Some Proxy" by (cases pm) simp
  then show ?thesis using assms
    by (cases w; cases st) (simp_all add: lookup_loop.simps [of _ _ attempt] get_service_def rpc_count_def is_rpc_def
        getKeyAttestationApplicationId_def isOk_def after_attempt_def attempt_events_def
        reset_service_def usleep_def)
qed

lemma lookup_loop_done:
  "\<not> attempt < kMaxAttempts \<Longrightarrow> lookup_loop remote uid attempt s = s"
  by (cases s) (simp add: lookup_loop.simps [of _ _ attempt])

lemma rpc_count_after_attempt [simp]:
  "rpc_count (after_attempt w uid st) = rpc_count w + 1"
  by (simp add: rpc_count_def after_attempt_def attempt_events_def is_rpc_def)

lemma reset_count_after_attempt [simp]:
  "reset_count (after_attempt w uid st) =
     reset_count w + (if st = EX_TRANSACTION_FAILED then 1 else 0)"
  by (simp add: reset_count_def after_attempt_def attempt_events_def isOk_def)

lemma usleep_count_after_attempt [simp]:
  "usleep_count (after_attempt w uid st) = usleep_count w + (if isOk st then 0 else 1)"
  by (simp add: usleep_count_def after_attempt_def attempt_events_def is_usleep_def)

lemma lookup_loop_all_fail:
  assumes "\<forall>i<kMaxAttempts. \<not> isOk (fst (remote (rpc_count w + i) uid))"
  shows "lookup_loop remote uid 0 (s, k, w) =
     (fst (remote (rpc_count w + 2) uid), snd (remote (rpc_count w + 2) uid),
      after_attempt
        (after_attempt (after_attempt w uid (fst (remote (rpc_count w) uid))) uid
           (fst (remote (rpc_count w + 1) uid)))
        uid (fst (remote (rpc_count w + 2) uid)))"
proof -
  let ?s0 = "fst (remote (rpc_count w) uid)" and ?k0 = "snd (remote (rpc_count w) uid)"
  let ?s1 = "fst (remote (rpc_count w + 1) uid)" and ?k1 = "snd (remote (rpc_count w + 1) uid)"
  let ?s2 = "fst (remote (rpc_count w + 2) uid)" and ?k2 = "snd (remote (rpc_count w + 2) uid)"
  let ?w1 = "after_attempt w uid ?s0"
  let ?w2 = "after_attempt ?w1 uid ?s1"
  let ?w3 = "after_attempt ?w2 uid ?s2"
  from assms have n: "?s0 \<noteq> EX_NONE" "?s1 \<noteq> EX_NONE" "?s2 \<noteq> EX_NONE"
    using assms [rule_format, of 0] assms [rule_format, of 1] assms [rule_format, of 2]
    by (simp_all add: kMaxAttempts_def isOk_def)
  have "lookup_loop remote uid 0 (s, k, w) = lookup_loop remote uid (0 + 1) (?s0, ?k0, ?w1)"
    by (rule lookup_loop_fail) (simp_all add: kMaxAttempts_def n)
  also have "\<dots> = lookup_loop remote uid (1 + 1) (?s1, ?k1, ?w2)"
    by (simp only: add_0) (rule lookup_loop_fail, insert n, simp_all add: kMaxAttempts_def)
  also have "\<dots> = lookup_loop remote uid (2 + 1) (?s2, ?k2, ?w3)"
    by (simp only: one_add_one) (rule lookup_loop_fail, insert n, simp_all add: kMaxAttempts_def)
  also have "\<dots> = (?s2, ?k2, ?w3)"
    by (rule lookup_loop_done) (simp add: kMaxAttempts_def)
  finally show ?thesis .
qed

lemma lookup_loop_fail_then_ok:
  assumes "remote (rpc_count w) uid = (st, k0)" and "st \<noteq> EX_NONE"
    and "remote (rpc_count w + 1) uid = (EX_NONE, kid)"
  shows "lookup_loop remote uid 0 (s, k, w) =
     (EX_NONE, kid, after_attempt (after_attempt w uid st) uid EX_NONE)"
proof -
  have "lookup_loop remote uid 0 (s, k, w) =
        lookup_loop remote uid (0 + 1) (st, k0, after_attempt w uid st)"
    by (rule lookup_loop_fail) (simp_all add: kMaxAttempts_def assms)
  also have "\<dots> = (EX_NONE, kid, after_attempt (after_attempt w uid st) uid EX_NONE)"
    by (rule lookup_loop_ok) (insert assms, simp_all add: kMaxAttempts_def)
  finally show ?thesis .
qed

lemma lookup_loop_ok_at:
  assumes "attempt + i < kMaxAttempts"
    and "\<forall>j<i. \<not> isOk (fst (remote (rpc_count w + j) uid))"
    and "remote (rpc_count w + i) uid = (EX_NONE, kid)"
  shows "\<exists>w'. lookup_loop remote uid attempt (s, k, w) = (EX_NONE, kid, w')"
  using assms
proof (induction i arbitrary: attempt s k w)
  case 0
  then show ?case using lookup_loop_ok [of attempt remote w uid kid s k] by simp
next
  case (Suc i)
  obtain st k1 where r: "remote (rpc_count w) uid = (st, k1)" by fastforce
  with Suc.prems(2) have n: "st \<noteq> EX_NONE" by (auto simp: isOk_def)
  from Suc.prems(1) have lt: "attempt < kMaxAttempts" by simp
  let ?w1 = "after_attempt w uid st"
  have "\<exists>w'. lookup_loop remote uid (attempt + 1) (st, k1, ?w1) = (EX_NONE, kid, w')"
  proof (rule Suc.IH)
    show "attempt + 1 + i < kMaxAttempts" using Suc.prems(1) by simp
    show "\<forall>j<i. \<not> isOk (fst (remote (rpc_count ?w1 + j) uid))"
      using Suc.prems(2) by auto
    show "remote (rpc_count ?w1 + i) uid = (EX_NONE, kid)"
      using Suc.prems(3) by simp
  qed
  with lookup_loop_fail [where attempt = attempt and remote = remote and w = w and uid = uid
      and st = st and k = k1 and ?s0.0 = s and ?k0.0 = k, OF lt r n]
  show ?case by simp
qed

lemma gather_unprivileged:
  assumes "uid \<noteq> AID_SYSTEM" and "uid \<noteq> AID_ROOT"
  shows "gather_attestation_application_id SHA256 remote uid w =
     (case lookup_loop remote uid 0 (EX_NONE, \<lparr>packageInfos = []\<rparr>, w) of
        (status, key_attestation_id, w1) \<Rightarrow>
          if \<not> isOk status then (Inl GET_ATTESTATION_APPLICATION_ID_FAILED, w1)
          else (build_attestation_application_id SHA256 key_attestation_id, w1))"
  using assms by (simp add: gather_attestation_application_id_def)

lemma fresh_world_simps:
  "trace fresh_world = []" "gService fresh_world = None" "rpc_count fresh_world = 0"
  "reset_count fresh_world = 0" "usleep_count fresh_world = 0"
  by (simp_all add: fresh_world_def rpc_count_def reset_count_def usleep_count_def)

section \<open>The encoder at the concrete inputs\<close>

lemma replicate_4: "replicate 4 x = [x, x, x, x]"
  by (simp add: eval_nat_numeral)

lemma replicate_5_95: "replicate 100 x = x # x # x # x # x # replicate 95 x"
proof -
  have "replicate (5 + 95) x = replicate 5 x @ replicate 95 x" by (rule replicate_add)
  moreover have "replicate 5 x = [x, x, x, x, x]" by (simp add: eval_nat_numeral)
  ultimately show ?thesis by simp
qed

lemma be_bytes_1: "be_bytes (Suc 0) = [1]"
  by (simp add: be_bytes.simps [of "Suc 0"] be_bytes.simps [of 0])

lemma be_bytes_big: "be_bytes (0x4000000000000000) = [0x40, 0, 0, 0, 0, 0, 0, 0]"
  by (simp add: be_bytes.simps)

lemma der_integer_1: "der_integer (Suc 0) = [0x02, 0x01, 0x01]"
  by (simp add: der_integer_def be_bytes_1 der_tlv_def der_length_def word_le_nat_alt)

lemma length_der_integer_big: "length (der_integer (0x4000000000000000)) = 10"
  by (simp add: der_integer_def be_bytes_big length_der_tlv length_der_length_1)

lemma length_oversize_name: "length (oversize_name b) = 129"
  by (simp add: oversize_name_def)

lemma c_str_oversize_name: "b \<noteq> 0 \<Longrightarrow> c_str_string (oversize_name b) = oversize_name b"
  by (simp add: c_str_string_def oversize_name_def)

lemma build_oversize_pinfo:
  "b \<noteq> 0 \<Longrightarrow> build_attestation_package_info (oversize_pinfo b) = Inr (oversize_built b)"
  by (simp add: build_attestation_package_info_def oversize_pinfo_def oversize_built_def
      c_str_oversize_name)

lemma length_i2d_oversize_built:
  "length (i2d_KM_ATTESTATION_PACKAGE_INFO (oversize_built b)) = 145"
  by (simp add: i2d_KM_ATTESTATION_PACKAGE_INFO_def der_sequence_def der_octet_string_def
      oversize_built_def length_oversize_name length_der_integer_big length_der_tlv
      length_der_length_2)

lemma name_size_oversize_pinfo: "b \<noteq> 0 \<Longrightarrow> name_size (oversize_pinfo b) = 129"
  by (simp add: name_size_def oversize_pinfo_def c_str_oversize_name length_oversize_name)

lemma package_loop_oversize_step:
  assumes "b \<noteq> 0"
  shows "package_loop (oversize_pinfo b # rest) est stack =
     (if est + 144 > KEY_ATTESTATION_APPLICATION_ID_MAX_SIZE then Inr (est + 144, stack)
      else package_loop rest (est + 144) (stack @ [oversize_built b]))"
proof -
  have n: "packageName (oversize_pinfo b) = Some (oversize_name b)"
    by (simp add: oversize_pinfo_def)
  show ?thesis
    by (simp add: n build_oversize_pinfo [OF assms] c_str_oversize_name [OF assms]
        length_oversize_name Let_def AAID_PKG_INFO_OVERHEAD_def)
qed

lemma package_loop_oversize:
  "package_loop (map oversize_pinfo [0x62, 0x63, 0x64, 0x65, 0x66, 0x67, 0x68])
     AAID_GENERAL_OVERHEAD [] =
   Inr (1024, map oversize_built [0x62, 0x63, 0x64, 0x65, 0x66, 0x67, 0x68])"
  by (simp add: package_loop_oversize_step AAID_GENERAL_OVERHEAD_def
      KEY_ATTESTATION_APPLICATION_ID_MAX_SIZE_def del: package_loop.simps(2))

lemma fill_oversize:
  "fill_attestation_id SHA256 oversize_id =
     Inr \<lparr>package_infos = map oversize_built [0x62, 0x63, 0x64, 0x65, 0x66, 0x67, 0x68],
          signature_digests = []\<rparr>"
proof -
  have s: "signatures (oversize_pinfo 0x62) = [\<lparr>data = [1, 2, 3]\<rparr>]"
    by (simp add: oversize_pinfo_def)
  show ?thesis
    using package_loop_oversize
    by (simp add: fill_attestation_id_def oversize_id_def s Let_def AAID_SIGNATURE_SIZE_def
        KEY_ATTESTATION_APPLICATION_ID_MAX_SIZE_def del: package_loop.simps(2))
qed

lemma fill_pkg200:
  "fill_attestation_id SHA256 \<lparr>packageInfos = replicate 100 pkg200\<rparr> =
     Inr \<lparr>package_infos = replicate 4 built200, signature_digests = []\<rparr>"
  by (simp add: fill_attestation_id_def replicate_5_95 replicate_4 pkg200_def built200_def
      build_attestation_package_info_def c_str_string_def Let_def
      AAID_GENERAL_OVERHEAD_def AAID_PKG_INFO_OVERHEAD_def AAID_SIGNATURE_SIZE_def
      KEY_ATTESTATION_APPLICATION_ID_MAX_SIZE_def)





lemma i2d_system_package:
  "i2d_KM_ATTESTATION_PACKAGE_INFO
     \<lparr>package_name = String16 ''AndroidSystem'', version = Suc 0\<rparr> =
   [0x30, 0x12, 0x04, 0x0D,
    0x41, 0x6E, 0x64, 0x72, 0x6F, 0x69, 0x64, 0x53, 0x79, 0x73, 0x74, 0x65, 0x6D,
    0x02, 0x01, 0x01]"
  by (simp add: i2d_KM_ATTESTATION_PACKAGE_INFO_def der_sequence_def der_octet_string_def
      der_integer_1 der_tlv_def der_length_def String16_def)

lemma fill_system_id:
  "fill_attestation_id SHA256 system_id =
     Inr \<lparr>package_infos = [\<lparr>package_name = String16 ''AndroidSystem'', version = Suc 0\<rparr>],
          signature_digests = []\<rparr>"
  by (simp add: fill_attestation_id_def system_id_def String16_def
      build_attestation_package_info_def c_str_string_def Let_def
      AAID_GENERAL_OVERHEAD_def AAID_PKG_INFO_OVERHEAD_def
      KEY_ATTESTATION_APPLICATION_ID_MAX_SIZE_def)

lemma build_system_id:
  "build_attestation_application_id SHA256 system_id =
     Inr [0x30, 0x18, 0x31, 0x14, 0x30, 0x12, 0x04, 0x0D,
          0x41, 0x6E, 0x64, 0x72, 0x6F, 0x69, 0x64, 0x53, 0x79, 0x73, 0x74, 0x65, 0x6D,
          0x02, 0x01, 0x01, 0x31, 0x00]"
  by (simp add: build_eq_i2d fill_system_id i2d_KM_ATTESTATION_APPLICATION_ID_def
      i2d_system_package der_sequence_def der_set_of_def der_tlv_def der_length_def)

section \<open>The claims\<close>

text \<open>
  Claim C1 says that the encoding of every valid input is at most 1024 bytes long. It is
  not: for seven packages with names of 129 bytes and version \<open>2\<^sup>6\<^sup>2\<close> the estimate is
  \<open>16 + 7 * (15 + 129) = 1024\<close>, so all seven packages are admitted (and no digest), and
  the encoding is 1025 bytes long, whatever the hash function. Each package costs
  \<open>3 + (3 + 129) + 10 = 145\<close> bytes, one more than its estimate of 144: the estimate
  leaves out the header of the package's own SEQUENCE.
\<close>

theorem oversize_output_exceeds_cap:
  "prefix_estimate (packageInfos oversize_id) \<le> KEY_ATTESTATION_APPLICATION_ID_MAX_SIZE \<and>
   (\<exists>result. build_attestation_application_id SHA256 oversize_id = Inr result \<and>
      length result = 1025 \<and> KEY_ATTESTATION_APPLICATION_ID_MAX_SIZE < length result)"
proof -
  have "prefix_estimate (packageInfos oversize_id) = 1024"
    by (simp add: prefix_estimate_numbers oversize_id_def name_size_oversize_pinfo)
  moreover have "length (i2d_KM_ATTESTATION_APPLICATION_ID
      \<lparr>package_infos = map oversize_built [0x62, 0x63, 0x64, 0x65, 0x66, 0x67, 0x68],
       signature_digests = []\<rparr>) = 1025"
    by (simp add: i2d_KM_ATTESTATION_APPLICATION_ID_def der_sequence_def length_der_tlv
        length_der_set_of length_i2d_oversize_built length_der_length_1 length_der_length_3)
  ultimately show ?thesis
    by (simp add: build_eq_i2d fill_oversize KEY_ATTESTATION_APPLICATION_ID_MAX_SIZE_def)
qed

text \<open>
  Claim C2: packages are taken in input order while the running estimate (16 at the
  start, 15 plus the length of the name for each package) stays within 1024. When the
  structure \<open>a\<close> is built, the call returns its encoding, and the package infos in it are
  those of the first \<open>k\<close> packages, in order, where the prefixes whose estimate is within
  the cap are exactly those of length at most \<open>k\<close>: the longest prefix that fits.
\<close>

theorem included_packages_longest_prefix:
  assumes "fill_attestation_id SHA256 kid = Inr a"
  shows "build_attestation_application_id SHA256 kid =
           Inr (i2d_KM_ATTESTATION_APPLICATION_ID a) \<and>
         (\<exists>k\<le>length (packageInfos kid).
            map Inr (package_infos a) =
              map build_attestation_package_info (take k (packageInfos kid)) \<and>
            (\<forall>j\<le>length (packageInfos kid).
               prefix_estimate (take j (packageInfos kid)) \<le> KEY_ATTESTATION_APPLICATION_ID_MAX_SIZE
                 \<longleftrightarrow> j \<le> k))"
proof -
  from assms obtain pinfo rest est stack where f:
    "packageInfos kid = pinfo # rest"
    "package_loop (pinfo # rest) AAID_GENERAL_OVERHEAD [] = Inr (est, stack)"
    "package_infos a = stack"
    by (rule fill_Inr_cases)
  let ?ps = "packageInfos kid"
  from package_loop_Inr [OF f(2)] f(1) obtain k where k: "k \<le> length ?ps"
    "map Inr stack = map build_attestation_package_info (take k ?ps)"
    "0 < k \<longrightarrow> AAID_GENERAL_OVERHEAD + packages_estimate (take k ?ps)
        \<le> KEY_ATTESTATION_APPLICATION_ID_MAX_SIZE"
    "est = AAID_GENERAL_OVERHEAD + packages_estimate (take (Suc k) ?ps)"
    "k < length ?ps \<longrightarrow> KEY_ATTESTATION_APPLICATION_ID_MAX_SIZE < est"
    by auto
  have "prefix_estimate (take j ?ps) \<le> KEY_ATTESTATION_APPLICATION_ID_MAX_SIZE \<longleftrightarrow> j \<le> k"
    if "j \<le> length ?ps" for j
  proof (cases "j \<le> k")
    case True
    show ?thesis
    proof (cases "k = 0")
      case True
      with \<open>j \<le> k\<close> show ?thesis
        by (simp add: prefix_estimate_def AAID_GENERAL_OVERHEAD_def
            KEY_ATTESTATION_APPLICATION_ID_MAX_SIZE_def)
    next
      case False
      with k(3) packages_estimate_take_mono [OF \<open>j \<le> k\<close>, of ?ps] \<open>j \<le> k\<close>
      show ?thesis by (simp add: prefix_estimate_def)
    qed
  next
    case False
    then have "Suc k \<le> j" by simp
    from False that have "k < length ?ps" by simp
    with k(4,5) packages_estimate_take_mono [OF \<open>Suc k \<le> j\<close>, of ?ps] False
    show ?thesis by (simp add: prefix_estimate_def)
  qed
  with k(1,2) f(3) assms show ?thesis by (simp add: build_eq_i2d) blast
qed

text \<open>
  One hundred packages with names of 200 bytes: four package infos are built
  (\<open>16 + 4 * 215 = 876\<close>, \<open>16 + 5 * 215 = 1091\<close>) and the call succeeds.
\<close>

theorem included_packages_longest_prefix_witness:
  "fill_attestation_id test_hash \<lparr>packageInfos = replicate 100 pkg200\<rparr> =
     Inr \<lparr>package_infos = replicate 4 built200, signature_digests = []\<rparr> \<and>
   (\<exists>result. build_attestation_application_id test_hash
      \<lparr>packageInfos = replicate 100 pkg200\<rparr> = Inr result) \<and>
   prefix_estimate (take 4 (replicate 100 pkg200)) \<le> KEY_ATTESTATION_APPLICATION_ID_MAX_SIZE \<and>
   KEY_ATTESTATION_APPLICATION_ID_MAX_SIZE < prefix_estimate (take 5 (replicate 100 pkg200))"
proof -
  let ?kid = "\<lparr>packageInfos = replicate 100 pkg200\<rparr>"
  let ?a = "\<lparr>package_infos = replicate 4 built200, signature_digests = []\<rparr>"
  have h: "fill_attestation_id test_hash ?kid = Inr ?a" by (rule fill_pkg200)
  from included_packages_longest_prefix [OF h] obtain k where k: "k \<le> 100"
    "map Inr (replicate 4 built200) = map build_attestation_package_info (take k (replicate 100 pkg200))"
    "\<forall>j\<le>100. prefix_estimate (take j (replicate 100 pkg200))
        \<le> KEY_ATTESTATION_APPLICATION_ID_MAX_SIZE \<longleftrightarrow> j \<le> k"
    by auto
  from k(2) have "length (map Inr (replicate 4 built200) :: (status_t + KM_ATTESTATION_PACKAGE_INFO) list) =
      length (map build_attestation_package_info (take k (replicate 100 pkg200)))"
    by simp
  with k(1) have "k = 4" by simp
  with k(3) [rule_format, of 4] k(3) [rule_format, of 5]
  have "prefix_estimate (take 4 (replicate 100 pkg200)) \<le> KEY_ATTESTATION_APPLICATION_ID_MAX_SIZE"
    "KEY_ATTESTATION_APPLICATION_ID_MAX_SIZE < prefix_estimate (take 5 (replicate 100 pkg200))"
    by simp_all
  with h show ?thesis by (simp add: build_eq_i2d)
qed




text \<open>
  Claim C4: an id without packages is rejected with \<open>BAD_VALUE\<close>, and a successful call
  never returns the empty byte sequence.
\<close>

theorem empty_packages_rejected:
  "(packageInfos kid = [] \<longrightarrow> build_attestation_application_id SHA256 kid = Inl BAD_VALUE) \<and>
   (build_attestation_application_id SHA256 kid' = Inr result \<longrightarrow> result \<noteq> [])"
  by (auto simp: build_eq_i2d fill_attestation_id_def i2d_not_Nil split: sum.splits)

theorem empty_packages_rejected_witness:
  "packageInfos empty_id = [] \<and>
   build_attestation_application_id test_hash empty_id = Inl BAD_VALUE \<and>
   (\<exists>result. build_attestation_application_id test_hash system_id = Inr result \<and> result \<noteq> [])"
proof -
  have e: "packageInfos empty_id = []" by (simp add: empty_id_def)
  obtain result where r: "build_attestation_application_id test_hash system_id = Inr result"
    using build_system_id by blast
  from empty_packages_rejected [of empty_id test_hash system_id result] e r
  show ?thesis by simp
qed

text \<open>
  Claim C5: for uid 1000 (system) or 0 (root) the gatherer returns the encoding of the
  single package named AndroidSystem with version 1 and no signatures, and leaves the
  world as it was: no call to the provider, not even a wait for the service.
\<close>

theorem privileged_uid_short_circuit:
  assumes "uid = 1000 \<or> uid = 0"
  shows "gather_attestation_application_id SHA256 remote uid w =
     (build_attestation_application_id SHA256
        \<lparr>packageInfos = [\<lparr>packageName = Some (String16 ''AndroidSystem''), versionCode = 1,
                           signatures = []\<rparr>]\<rparr>, w)"
  using assms
  by (auto simp: gather_attestation_application_id_def AID_SYSTEM_def AID_ROOT_def
      kAttestationSystemPackageName_def Let_def)

theorem privileged_uid_short_circuit_witness:
  "((1000::uid_t) = 1000 \<or> (1000::uid_t) = 0) \<and>
   gather_attestation_application_id test_hash always_service_specific 1000 fresh_world =
     (Inr [0x30, 0x18, 0x31, 0x14, 0x30, 0x12, 0x04, 0x0D,
           0x41, 0x6E, 0x64, 0x72, 0x6F, 0x69, 0x64, 0x53, 0x79, 0x73, 0x74, 0x65, 0x6D,
           0x02, 0x01, 0x01, 0x31, 0x00], fresh_world)"
proof -
  have h: "(1000::uid_t) = 1000 \<or> (1000::uid_t) = 0" by simp
  from privileged_uid_short_circuit [OF h, of test_hash always_service_specific fresh_world]
    build_system_id [of test_hash]
  show ?thesis by (simp add: system_id_def)
qed

text \<open>
  Claim C6, for a uid that is neither system nor root. If the first transaction fails and
  the second call is answered, the gatherer returns what the encoder returns for the
  answer (a byte sequence when the answer has a package and every package a name), and
  between the two calls the proxy is reset exactly once. If the first three calls all
  fail, in whatever way, the gatherer returns \<open>GET_ATTESTATION_APPLICATION_ID_FAILED\<close>
  after exactly three calls, with one reset for each failed transaction among them.
\<close>

theorem retry_and_reset_policy:
  assumes "uid \<noteq> AID_SYSTEM" and "uid \<noteq> AID_ROOT"
  shows "(remote (rpc_count w) uid = (EX_TRANSACTION_FAILED, k0) \<and>
          remote (rpc_count w + 1) uid = (EX_NONE, kid) \<longrightarrow>
            fst (gather_attestation_application_id SHA256 remote uid w) =
              build_attestation_application_id SHA256 kid \<and>
            trace (snd (gather_attestation_application_id SHA256 remote uid w)) =
              trace w @ (if gService w = None then [WaitForService] else []) @
              [Rpc uid, ResetService, Usleep kRetryIntervalUsecs, WaitForService, Rpc uid] \<and>
            (packageInfos kid \<noteq> [] \<and> (\<forall>p\<in>set (packageInfos kid). packageName p \<noteq> None) \<longrightarrow>
               (\<exists>result. fst (gather_attestation_application_id SHA256 remote uid w) = Inr result))) \<and>
         ((\<forall>i<kMaxAttempts. \<not> isOk (fst (remote (rpc_count w + i) uid))) \<longrightarrow>
            fst (gather_attestation_application_id SHA256 remote uid w) =
              Inl GET_ATTESTATION_APPLICATION_ID_FAILED \<and>
            rpc_count (snd (gather_attestation_application_id SHA256 remote uid w)) =
              rpc_count w + 3 \<and>
            reset_count (snd (gather_attestation_application_id SHA256 remote uid w)) =
              reset_count w +
              length (filter (\<lambda>i. fst (remote (rpc_count w + i) uid) = EX_TRANSACTION_FAILED)
                        [0, 1, 2]))"
proof (intro conjI impI)
  assume a: "remote (rpc_count w) uid = (EX_TRANSACTION_FAILED, k0) \<and>
          remote (rpc_count w + 1) uid = (EX_NONE, kid)"
  then have loop: "lookup_loop remote uid 0 (EX_NONE, \<lparr>packageInfos = []\<rparr>, w) =
     (EX_NONE, kid, after_attempt (after_attempt w uid EX_TRANSACTION_FAILED) uid EX_NONE)"
    by (intro lookup_loop_fail_then_ok) simp_all
  show r: "fst (gather_attestation_application_id SHA256 remote uid w) =
              build_attestation_application_id SHA256 kid"
    by (simp add: gather_unprivileged [OF assms] loop isOk_def)
  show "trace (snd (gather_attestation_application_id SHA256 remote uid w)) =
              trace w @ (if gService w = None then [WaitForService] else []) @
              [Rpc uid, ResetService, Usleep kRetryIntervalUsecs, WaitForService, Rpc uid]"
    by (simp add: gather_unprivileged [OF assms] loop isOk_def after_attempt_def
        attempt_events_def)
  assume "packageInfos kid \<noteq> [] \<and> (\<forall>p\<in>set (packageInfos kid). packageName p \<noteq> None)"
  then show "\<exists>result. fst (gather_attestation_application_id SHA256 remote uid w) = Inr result"
    using build_total [of kid SHA256] by (simp add: r)
next
  assume a: "\<forall>i<kMaxAttempts. \<not> isOk (fst (remote (rpc_count w + i) uid))"
  note loop = lookup_loop_all_fail [where remote = remote and w = w and uid = uid and s = EX_NONE
      and k = "\<lparr>packageInfos = []\<rparr>", OF a]
  from a [rule_format, of 2] have n: "\<not> isOk (fst (remote (rpc_count w + 2) uid))"
    by (simp add: kMaxAttempts_def)
  show "fst (gather_attestation_application_id SHA256 remote uid w) =
              Inl GET_ATTESTATION_APPLICATION_ID_FAILED"
    using n by (simp add: gather_unprivileged [OF assms] loop)
  show "rpc_count (snd (gather_attestation_application_id SHA256 remote uid w)) = rpc_count w + 3"
    using n by (simp add: gather_unprivileged [OF assms] loop)
  show "reset_count (snd (gather_attestation_application_id SHA256 remote uid w)) =
              reset_count w +
              length (filter (\<lambda>i. fst (remote (rpc_count w + i) uid) = EX_TRANSACTION_FAILED)
                        [0, 1, 2])"
    using n by (simp add: gather_unprivileged [OF assms] loop)
qed

theorem retry_and_reset_policy_witness:
  "(10001::uid_t) \<noteq> AID_SYSTEM \<and> (10001::uid_t) \<noteq> AID_ROOT \<and>
   fst (gather_attestation_application_id test_hash fail_then_ok 10001 fresh_world) =
     build_attestation_application_id test_hash system_id \<and>
   (\<exists>result. fst (gather_attestation_application_id test_hash fail_then_ok 10001 fresh_world) =
      Inr result) \<and>
   trace (snd (gather_attestation_application_id test_hash fail_then_ok 10001 fresh_world)) =
     [WaitForService, Rpc 10001, ResetService, Usleep 500000, WaitForService, Rpc 10001] \<and>
   fst (gather_attestation_application_id test_hash always_service_specific 10001 fresh_world) =
     Inl GET_ATTESTATION_APPLICATION_ID_FAILED \<and>
   rpc_count (snd (gather_attestation_application_id test_hash always_service_specific 10001
     fresh_world)) = 3 \<and>
   reset_count (snd (gather_attestation_application_id test_hash always_service_specific 10001
     fresh_world)) = 0"
proof -
  have u: "(10001::uid_t) \<noteq> AID_SYSTEM" "(10001::uid_t) \<noteq> AID_ROOT"
    by (simp_all add: AID_SYSTEM_def AID_ROOT_def)
  have f: "fail_then_ok (rpc_count fresh_world) 10001 = (EX_TRANSACTION_FAILED, empty_id) \<and>
           fail_then_ok (rpc_count fresh_world + 1) 10001 = (EX_NONE, system_id)"
    by (simp add: fail_then_ok_def fresh_world_simps)
  have v: "packageInfos system_id \<noteq> [] \<and> (\<forall>p\<in>set (packageInfos system_id). packageName p \<noteq> None)"
    by (simp add: system_id_def)
  have a: "\<forall>i<kMaxAttempts.
      \<not> isOk (fst (always_service_specific (rpc_count fresh_world + i) 10001))"
    by (simp add: always_service_specific_def isOk_def)
  note p = retry_and_reset_policy [where uid = 10001 and w = fresh_world
      and ?SHA256.0 = test_hash, OF u]
  from p [where remote = fail_then_ok and ?k0.0 = empty_id and kid = system_id] f
  have c: "fst (gather_attestation_application_id test_hash fail_then_ok 10001 fresh_world) =
       build_attestation_application_id test_hash system_id \<and>
     trace (snd (gather_attestation_application_id test_hash fail_then_ok 10001 fresh_world)) =
       trace fresh_world @ (if gService fresh_world = None then [WaitForService] else []) @
       [Rpc 10001, ResetService, Usleep kRetryIntervalUsecs, WaitForService, Rpc 10001] \<and>
     (packageInfos system_id \<noteq> [] \<and> (\<forall>p\<in>set (packageInfos system_id). packageName p \<noteq> None)
        \<longrightarrow> (\<exists>result. fst (gather_attestation_application_id test_hash fail_then_ok 10001
              fresh_world) = Inr result))"
    by blast
  from c have 1:
    "fst (gather_attestation_application_id test_hash fail_then_ok 10001 fresh_world) =
     build_attestation_application_id test_hash system_id"
    "trace (snd (gather_attestation_application_id test_hash fail_then_ok 10001 fresh_world)) =
     [WaitForService, Rpc 10001, ResetService, Usleep 500000, WaitForService, Rpc 10001]"
    by (simp_all add: fresh_world_simps kRetryIntervalUsecs_def)
  from c v have 3:
    "\<exists>result. fst (gather_attestation_application_id test_hash fail_then_ok 10001 fresh_world) =
      Inr result"
    by blast
  from p [where remote = always_service_specific] a
  have d: "fst (gather_attestation_application_id test_hash always_service_specific 10001
        fresh_world) = Inl GET_ATTESTATION_APPLICATION_ID_FAILED \<and>
     rpc_count (snd (gather_attestation_application_id test_hash always_service_specific 10001
        fresh_world)) = rpc_count fresh_world + 3 \<and>
     reset_count (snd (gather_attestation_application_id test_hash always_service_specific 10001
        fresh_world)) = reset_count fresh_world +
        length (filter (\<lambda>i. fst (always_service_specific (rpc_count fresh_world + i) 10001) =
          EX_TRANSACTION_FAILED) [0, 1, 2])"
    by blast
  then have 2:
    "fst (gather_attestation_application_id test_hash always_service_specific 10001 fresh_world) =
     Inl GET_ATTESTATION_APPLICATION_ID_FAILED"
    "rpc_count (snd (gather_attestation_application_id test_hash always_service_specific 10001
     fresh_world)) = 3"
    "reset_count (snd (gather_attestation_application_id test_hash always_service_specific 10001
     fresh_world)) = 0"
    by (simp_all add: fresh_world_simps always_service_specific_def)
  from u 1 3 2 show ?thesis by blast
qed

text \<open>
  Claim C7 says that three service specific errors in a row are followed by two sleeps
  only. The loop sleeps after every failed attempt, the last one included: with three
  service specific errors the gatherer makes three calls, each followed by a sleep of
  500000 microseconds, and then returns \<open>GET_ATTESTATION_APPLICATION_ID_FAILED\<close>.
\<close>

theorem three_failures_three_sleeps:
  assumes "uid \<noteq> AID_SYSTEM" and "uid \<noteq> AID_ROOT"
    and "\<forall>i<kMaxAttempts. \<exists>code. fst (remote (rpc_count w + i) uid) = EX_SERVICE_SPECIFIC code"
  shows "fst (gather_attestation_application_id SHA256 remote uid w) =
           Inl GET_ATTESTATION_APPLICATION_ID_FAILED \<and>
         trace (snd (gather_attestation_application_id SHA256 remote uid w)) =
           trace w @ (if gService w = None then [WaitForService] else []) @
           [Rpc uid, Usleep kRetryIntervalUsecs, Rpc uid, Usleep kRetryIntervalUsecs,
            Rpc uid, Usleep kRetryIntervalUsecs] \<and>
         usleep_count (snd (gather_attestation_application_id SHA256 remote uid w)) =
           usleep_count w + 3"
proof -
  from assms(3) have a: "\<forall>i<kMaxAttempts. \<not> isOk (fst (remote (rpc_count w + i) uid))"
    by (auto simp: isOk_def)
  note loop = lookup_loop_all_fail [where remote = remote and w = w and uid = uid and s = EX_NONE
      and k = "\<lparr>packageInfos = []\<rparr>", OF a]
  from assms(3) [rule_format, of 0] assms(3) [rule_format, of 1] assms(3) [rule_format, of 2]
  obtain c0 c1 c2 where c: "fst (remote (rpc_count w) uid) = EX_SERVICE_SPECIFIC c0"
    "fst (remote (rpc_count w + 1) uid) = EX_SERVICE_SPECIFIC c1"
    "fst (remote (rpc_count w + 2) uid) = EX_SERVICE_SPECIFIC c2"
    by (auto simp: kMaxAttempts_def)
  show ?thesis
    using c
    by (simp add: gather_unprivileged [OF assms(1,2)] loop isOk_def after_attempt_def
        attempt_events_def usleep_count_def is_usleep_def)
qed

theorem three_failures_three_sleeps_witness:
  "(10001::uid_t) \<noteq> AID_SYSTEM \<and> (10001::uid_t) \<noteq> AID_ROOT \<and>
   fst (gather_attestation_application_id test_hash always_service_specific 10001 fresh_world) =
     Inl GET_ATTESTATION_APPLICATION_ID_FAILED \<and>
   trace (snd (gather_attestation_application_id test_hash always_service_specific 10001
     fresh_world)) =
     [WaitForService, Rpc 10001, Usleep 500000, Rpc 10001, Usleep 500000,
      Rpc 10001, Usleep 500000] \<and>
   usleep_count (snd (gather_attestation_application_id test_hash always_service_specific 10001
     fresh_world)) = 3"
proof -
  have u: "(10001::uid_t) \<noteq> AID_SYSTEM" "(10001::uid_t) \<noteq> AID_ROOT"
    by (simp_all add: AID_SYSTEM_def AID_ROOT_def)
  have a: "\<forall>i<kMaxAttempts. \<exists>code.
      fst (always_service_specific (rpc_count fresh_world + i) 10001) = EX_SERVICE_SPECIFIC code"
    by (simp add: always_service_specific_def)
  from three_failures_three_sleeps [where uid = 10001 and remote = always_service_specific
      and w = fresh_world and ?SHA256.0 = test_hash, OF u a]
  have "fst (gather_attestation_application_id test_hash always_service_specific 10001
        fresh_world) = Inl GET_ATTESTATION_APPLICATION_ID_FAILED"
    "trace (snd (gather_attestation_application_id test_hash always_service_specific 10001
        fresh_world)) =
     [WaitForService, Rpc 10001, Usleep 500000, Rpc 10001, Usleep 500000,
      Rpc 10001, Usleep 500000]"
    "usleep_count (snd (gather_attestation_application_id test_hash always_service_specific 10001
        fresh_world)) = 3"
    by (simp_all add: fresh_world_simps kRetryIntervalUsecs_def)
  with u show ?thesis by blast
qed

text \<open>
  At the provider that always answers with the service specific error 7, the last event
  of the call is a sleep and the number of sleeps is not two.
\<close>

theorem final_attempt_sleep_counterexample:
  "fst (gather_attestation_application_id test_hash always_service_specific 10001 fresh_world) =
     Inl GET_ATTESTATION_APPLICATION_ID_FAILED \<and>
   last (trace (snd (gather_attestation_application_id test_hash always_service_specific 10001
     fresh_world))) = Usleep kRetryIntervalUsecs \<and>
   usleep_count (snd (gather_attestation_application_id test_hash always_service_specific 10001
     fresh_world)) \<noteq> 2"
proof -
  have u: "(10001::uid_t) \<noteq> AID_SYSTEM" "(10001::uid_t) \<noteq> AID_ROOT"
    by (simp_all add: AID_SYSTEM_def AID_ROOT_def)
  have a: "\<forall>i<kMaxAttempts.
      \<not> isOk (fst (always_service_specific (rpc_count fresh_world + i) 10001))"
    by (simp add: always_service_specific_def isOk_def)
  note loop = lookup_loop_all_fail [where remote = always_service_specific and w = fresh_world
      and uid = 10001 and s = EX_NONE and k = "\<lparr>packageInfos = []\<rparr>", OF a]
  have g: "gather_attestation_application_id test_hash always_service_specific 10001 fresh_world =
      (Inl GET_ATTESTATION_APPLICATION_ID_FAILED,
       after_attempt
         (after_attempt (after_attempt fresh_world 10001 (EX_SERVICE_SPECIFIC 7)) 10001
            (EX_SERVICE_SPECIFIC 7))
         10001 (EX_SERVICE_SPECIFIC 7))"
    by (simp add: gather_unprivileged [OF u] loop always_service_specific_def isOk_def)
  show ?thesis
    by (simp add: g after_attempt_def attempt_events_def usleep_count_def is_usleep_def
        isOk_def fresh_world_simps)
qed

text \<open>
  Claim C9: when fewer package infos are built than there are packages, the set of
  signature digests of the structure that is encoded is empty, since the estimate kept
  from the package that did not fit is already above the cap when the loop over the
  digests starts.
\<close>

theorem truncated_packages_leave_no_digests:
  assumes "fill_attestation_id SHA256 kid = Inr a"
    and "length (package_infos a) < length (packageInfos kid)"
  shows "build_attestation_application_id SHA256 kid =
           Inr (i2d_KM_ATTESTATION_APPLICATION_ID a) \<and>
         signature_digests a = []"
proof -
  from assms(1) obtain pinfo rest est stack where f:
    "packageInfos kid = pinfo # rest"
    "package_loop (pinfo # rest) AAID_GENERAL_OVERHEAD [] = Inr (est, stack)"
    "package_infos a = stack"
    "signature_digests a =
       snd (digest_loop (map (signature2SHA256 SHA256) (signatures pinfo)) est [])"
    by (rule fill_Inr_cases)
  from package_loop_Inr [OF f(2)] obtain k where k: "k \<le> length (pinfo # rest)"
    "map Inr stack = map Inr [] @ map build_attestation_package_info (take k (pinfo # rest))"
    "k < length (pinfo # rest) \<longrightarrow> KEY_ATTESTATION_APPLICATION_ID_MAX_SIZE < est"
    by blast
  from k(2) have "length (map Inr stack :: (status_t + KM_ATTESTATION_PACKAGE_INFO) list) =
      length (map build_attestation_package_info (take k (pinfo # rest)))"
    by simp
  with k(1) have "length stack = k" by simp
  with assms(2) f(1,3) k(3) have "KEY_ATTESTATION_APPLICATION_ID_MAX_SIZE < est" by simp
  with f(4) assms(1) show ?thesis by (simp add: digest_loop_over_budget build_eq_i2d)
qed

theorem truncated_packages_leave_no_digests_witness:
  "fill_attestation_id test_hash \<lparr>packageInfos = replicate 100 pkg200\<rparr> =
     Inr \<lparr>package_infos = replicate 4 built200, signature_digests = []\<rparr> \<and>
   length (replicate 4 built200) < length (replicate 100 pkg200) \<and>
   signatures pkg200 \<noteq> [] \<and>
   signature_digests \<lparr>package_infos = replicate 4 built200, signature_digests = []\<rparr> = []"
proof -
  let ?kid = "\<lparr>packageInfos = replicate 100 pkg200\<rparr>"
  let ?a = "\<lparr>package_infos = replicate 4 built200, signature_digests = []\<rparr>"
  have h: "fill_attestation_id test_hash ?kid = Inr ?a" by (rule fill_pkg200)
  have l: "length (package_infos ?a) < length (packageInfos ?kid)" by simp
  from truncated_packages_leave_no_digests [OF h l] h show ?thesis
    by (simp add: pkg200_def)
qed

text \<open>
  Claim C10: for a uid that is neither system nor root, when a call within the three
  attempts is answered (the earlier ones having failed) and the answer has no packages,
  the gatherer returns \<open>BAD_VALUE\<close> from the encoder, not the code of a failed lookup.
\<close>

theorem empty_lookup_is_bad_value:
  assumes "uid \<noteq> AID_SYSTEM" and "uid \<noteq> AID_ROOT"
    and "i < kMaxAttempts"
    and "\<forall>j<i. \<not> isOk (fst (remote (rpc_count w + j) uid))"
    and "remote (rpc_count w + i) uid = (EX_NONE, kid)"
    and "packageInfos kid = []"
  shows "fst (gather_attestation_application_id SHA256 remote uid w) = Inl BAD_VALUE \<and>
         fst (gather_attestation_application_id SHA256 remote uid w) \<noteq>
           Inl GET_ATTESTATION_APPLICATION_ID_FAILED"
proof -
  from lookup_loop_ok_at [where attempt = 0 and i = i and remote = remote and w = w
      and uid = uid and kid = kid and s = EX_NONE and k = "\<lparr>packageInfos = []\<rparr>"] assms(3,4,5)
  obtain w' where
    "lookup_loop remote uid 0 (EX_NONE, \<lparr>packageInfos = []\<rparr>, w) = (EX_NONE, kid, w')"
    by auto
  then show ?thesis
    by (simp add: gather_unprivileged [OF assms(1,2)] isOk_def build_eq_i2d
        fill_attestation_id_def assms(6))
qed

theorem empty_lookup_is_bad_value_witness:
  "(10001::uid_t) \<noteq> AID_SYSTEM \<and> (10001::uid_t) \<noteq> AID_ROOT \<and>
   \<not> isOk (fst (unavailable_then_empty (rpc_count fresh_world) 10001)) \<and>
   unavailable_then_empty (rpc_count fresh_world + 1) 10001 = (EX_NONE, empty_id) \<and>
   packageInfos empty_id = [] \<and>
   fst (gather_attestation_application_id test_hash unavailable_then_empty 10001 fresh_world) =
     Inl BAD_VALUE"
proof -
  have u: "(10001::uid_t) \<noteq> AID_SYSTEM" "(10001::uid_t) \<noteq> AID_ROOT"
    by (simp_all add: AID_SYSTEM_def AID_ROOT_def)
  have i: "(1::nat) < kMaxAttempts" by (simp add: kMaxAttempts_def)
  have n: "\<not> isOk (fst (unavailable_then_empty (rpc_count fresh_world) 10001))"
    by (simp add: unavailable_then_empty_def isOk_def fresh_world_simps)
  then have f: "\<forall>j<1. \<not> isOk (fst (unavailable_then_empty (rpc_count fresh_world + j) 10001))"
    by simp
  have r: "unavailable_then_empty (rpc_count fresh_world + 1) 10001 = (EX_NONE, empty_id)"
    by (simp add: unavailable_then_empty_def)
  have e: "packageInfos empty_id = []" by (simp add: empty_id_def)
  from empty_lookup_is_bad_value [where uid = 10001 and remote = unavailable_then_empty
      and w = fresh_world and kid = empty_id and i = 1 and ?SHA256.0 = test_hash, OF u i f r e]
    u n r e
  show ?thesis by blast
qed

end
